theory Spec2Isabelle
  imports Main "HOL-Library.Sublist" "HOL-Library.AList"
begin

section \<open>Data model\<close>

text \<open>
  Strings are \<open>string\<close>. An object with optional fields is a record whose optional
  fields are options. ISO-8601 timestamps are held as the epoch milliseconds that
  \<open>new Date(s).getTime()\<close> reads back from them, so that "now" is an \<open>int\<close> parameter
  of every operation that calls \<open>new Date()\<close>. A thrown \<open>Error(message)\<close> is the value
  \<open>Error message\<close>; a function that can throw returns \<open>error + 'a\<close>.
\<close>

datatype error = Error string

fun message :: "error \<Rightarrow> string" where
  "message (Error m) = m"

text \<open>\<open>s.includes(sub)\<close> of JavaScript.\<close>

fun str_includes :: "string \<Rightarrow> string \<Rightarrow> bool" where
  "str_includes [] sub = (sub = [])"
| "str_includes (c # cs) sub = (prefix sub (c # cs) \<or> str_includes cs sub)"

datatype AgentStatus = Online | Busy | Offline

datatype Scope = UserScope | ProjectScope

datatype Visibility = Private | ProjectOnly | UserOnly | Public

record RegistryEntry =
  guid :: string
  agentType :: string
  handle :: string
  hostname :: string
  projectId :: string
  natsUrl :: string
  username :: "string option"
  capabilities :: "string list"
  scope :: Scope
  visibility :: Visibility
  status :: AgentStatus
  currentTaskCount :: int
  registeredAt :: int
  lastHeartbeat :: int

record Requester =
  req_guid :: string
  req_projectId :: string
  req_username :: "string option"




section \<open>Agent registry: visibility and redaction\<close>

text \<open>
  Both sides carry a non-empty \<open>username\<close> and the two are equal (the \<open>user-only\<close>
  matching of the specification, section 4.1).
\<close>

definition usernames_match :: "RegistryEntry \<Rightarrow> Requester \<Rightarrow> bool" where
  "usernames_match entry requester =
     (case (username entry, req_username requester) of
        (Some a, Some b) \<Rightarrow> a \<noteq> [] \<and> b \<noteq> [] \<and> a = b
      | _ \<Rightarrow> False)"

text \<open>
  Modelled from the spec: \<open>registry.ts\<close> (\<open>isVisibleTo\<close>) is not among the sources;
  only its tests and its callers are. The definition follows section 4.1 of the
  specification, rule by rule, and agrees with every case of the test suite
  \<open>describe('isVisibleTo')\<close>.
\<close>

definition isVisibleTo :: "RegistryEntry \<Rightarrow> Requester \<Rightarrow> bool" where
  "isVisibleTo entry requester =
     (case visibility entry of
        Private \<Rightarrow> req_guid requester = guid entry
      | ProjectOnly \<Rightarrow>
          req_guid requester = guid entry \<or> req_projectId requester = projectId entry
      | UserOnly \<Rightarrow> usernames_match entry requester \<or> req_guid requester = guid entry
      | Public \<Rightarrow> True)"


text \<open>The fixtures of the registry test suite.\<close>

definition baseEntry :: RegistryEntry where
  "baseEntry =
     \<lparr>guid = ''123e4567-e89b-42d3-a456-426614174000'', agentType = ''developer'',
      handle = ''TestAgent'', hostname = ''test-host'', projectId = ''1234567890abcdef'',
      natsUrl = ''nats://localhost:4222'', username = Some ''testuser'',
      capabilities = [''typescript''], scope = ProjectScope, visibility = Private,
      status = Online, currentTaskCount = 0, registeredAt = 1765108800000,
      lastHeartbeat = 1765108800000\<rparr>"

definition sameProjectRequester :: Requester where
  "sameProjectRequester =
     \<lparr>req_guid = ''223e4567-e89b-42d3-a456-426614174000'',
      req_projectId = ''1234567890abcdef'', req_username = Some ''otheruser''\<rparr>"

definition differentProjectRequester :: Requester where
  "differentProjectRequester =
     \<lparr>req_guid = ''323e4567-e89b-42d3-a456-426614174000'',
      req_projectId = ''fedcba0987654321'', req_username = Some ''anotheruser''\<rparr>"

definition sameUserRequester :: Requester where
  "sameUserRequester =
     \<lparr>req_guid = ''423e4567-e89b-42d3-a456-426614174000'',
      req_projectId = ''fedcba0987654321'', req_username = Some ''testuser''\<rparr>"


section \<open>Work items and the broker\<close>

datatype AssignmentStatus = Pending | Assigned | InProgress | Completed | Failed

record WorkItem =
  wi_id :: string
  taskId :: string
  capability :: string
  description :: string
  priority :: "int option"
  deadline :: "int option"
  contextData :: "string option"
  offeredBy :: string
  offeredAt :: int
  attempts :: nat

record DLQItem =
  dlq_id :: string
  workItem :: WorkItem
  reason :: string
  dlq_attempts :: nat
  failedAt :: int
  errors :: "string list"

record InboxMessage =
  msg_id :: string
  senderGuid :: string
  senderHandle :: string
  recipientGuid :: string
  messageType :: string
  content :: string
  metadata :: "string option"
  timestamp :: int

text \<open>
  The bytes of a message. \<open>JSON.stringify\<close> of a value is the constructor of its type,
  \<open>JSON.parse(...) as T\<close> reads it back and throws on \<open>Garbled\<close> text. A payload of
  another type than the one the reader expects is treated as unparseable (the source's
  unchecked cast of well-formed JSON of another shape is not followed further).
\<close>

datatype payload =
  WorkJSON WorkItem | DLQJSON DLQItem | InboxJSON InboxMessage | Garbled string

fun parseWorkItem :: "payload \<Rightarrow> WorkItem option" where
  "parseWorkItem (WorkJSON w) = Some w"
| "parseWorkItem _ = None"


fun parseInboxMessage :: "payload \<Rightarrow> InboxMessage option" where
  "parseInboxMessage (InboxJSON m) = Some m"
| "parseInboxMessage _ = None"

text \<open>
  The broker is an external collaborator (the \<open>nats\<close> client library); the model keeps
  what section 6 of the specification asks of it. A stream owns subjects and an
  append-only sequence of messages: slot \<open>i\<close> of \<open>slots\<close> is sequence number \<open>i + 1\<close>,
  \<open>None\<close> once the message is deleted, so \<open>last_seq\<close> is the number of slots and
  \<open>state.messages\<close> the number of slots still filled. A message carries its delivery
  count and whether the stream's consumer has acknowledged it. \<open>msgIDs\<close> are the
  deduplication ids already seen. \<open>jetStreamClient\<close> and \<open>jetStreamManager\<close> say whether
  the connection state of \<open>nats.ts\<close> holds a client and a manager.
\<close>

record stored =
  data :: payload
  deliveryCount :: nat
  acked :: bool

record stream =
  subjects :: "string list"
  slots :: "stored option list"
  msgIDs :: "string list"
  workqueueRetention :: bool

record broker =
  jetStreamClient :: bool
  jetStreamManager :: bool
  streams :: "(string \<times> stream) list"
  consumers :: "(string \<times> string) list"

definition getJetStreamClient :: "broker \<Rightarrow> error + unit" where
  "getJetStreamClient b =
     (if \<not> jetStreamClient b
      then Inl (Error ''JetStream client not initialized. Call connectToNats() first.'')
      else Inr ())"

definition getJetStreamManager :: "broker \<Rightarrow> error + unit" where
  "getJetStreamManager b =
     (if \<not> jetStreamManager b
      then Inl (Error ''JetStream manager not initialized. Call connectToNats() first.'')
      else Inr ())"

text \<open>\<open>jsm.streams.info(name)\<close>: the stream, or the broker's "stream not found".\<close>

definition streams_info :: "broker \<Rightarrow> string \<Rightarrow> error + stream" where
  "streams_info b name =
     (case map_of (streams b) name of
        None \<Rightarrow> Inl (Error ''stream not found'')
      | Some s \<Rightarrow> Inr s)"


definition state_last_seq :: "stream \<Rightarrow> nat" where
  "state_last_seq s = length (slots s)"

definition set_stream :: "broker \<Rightarrow> string \<Rightarrow> stream \<Rightarrow> broker" where
  "set_stream b name s =
     b\<lparr>streams := map (\<lambda>(n, s'). if n = name then (n, s) else (n, s')) (streams b)\<rparr>"

text \<open>
  \<open>js.publish(subject, data, {msgID})\<close>: the message is appended to the first stream
  that owns the subject; a publish nobody answers fails; a message whose \<open>msgID\<close> the
  stream has already seen is acknowledged as a duplicate and not stored.
\<close>

definition js_publish :: "broker \<Rightarrow> string \<Rightarrow> payload \<Rightarrow> string option \<Rightarrow> error + broker" where
  "js_publish b subject p msgID =
     (case find (\<lambda>(n, s). subject \<in> set (subjects s)) (streams b) of
        None \<Rightarrow> Inl (Error ''503'')
      | Some (n, s) \<Rightarrow>
          (case msgID of
             None \<Rightarrow>
               Inr (set_stream b n
                 (s\<lparr>slots := slots s @ [Some \<lparr>data = p, deliveryCount = 0, acked = False\<rparr>]\<rparr>))
           | Some i \<Rightarrow>
               if i \<in> set (msgIDs s) then Inr b
               else Inr (set_stream b n
                 (s\<lparr>slots := slots s @ [Some \<lparr>data = p, deliveryCount = 0, acked = False\<rparr>],
                    msgIDs := msgIDs s @ [i]\<rparr>))))"



text \<open>\<open>jsm.consumers.info\<close> and \<open>jsm.consumers.add\<close> for a durable consumer.\<close>

definition consumers_info :: "broker \<Rightarrow> string \<Rightarrow> string \<Rightarrow> error + unit" where
  "consumers_info b streamName consumerName =
     (if (streamName, consumerName) \<in> set (consumers b) then Inr ()
      else Inl (Error ''consumer not found''))"

definition consumers_add :: "broker \<Rightarrow> string \<Rightarrow> string \<Rightarrow> error + broker" where
  "consumers_add b streamName consumerName =
     (case streams_info b streamName of
        Inl e \<Rightarrow> Inl e
      | Inr s \<Rightarrow> Inr (b\<lparr>consumers := consumers b @ [(streamName, consumerName)]\<rparr>))"

text \<open>
  The messages a consumer can be handed, oldest first, with their sequence numbers:
  the filled slots not yet acknowledged.
\<close>

fun pending :: "stored option list \<Rightarrow> nat \<Rightarrow> (nat \<times> stored) list" where
  "pending [] seq = []"
| "pending (None # rest) seq = pending rest (Suc seq)"
| "pending (Some m # rest) seq =
     (if acked m then pending rest (Suc seq) else (seq, m) # pending rest (Suc seq))"

fun deliver :: "nat list \<Rightarrow> stored option list \<Rightarrow> stored option list" where
  "deliver [] sl = sl"
| "deliver (seq # seqs) sl =
     deliver seqs
       (case sl ! (seq - 1) of
          None \<Rightarrow> sl
        | Some m \<Rightarrow> sl[seq - 1 := Some (m\<lparr>deliveryCount := Suc (deliveryCount m)\<rparr>)])"

text \<open>
  \<open>consumer.fetch({max_messages: n})\<close>: at most \<open>n\<close> pending messages, each delivered
  once more. The wait for the acknowledgement (\<open>ack_wait\<close>) is real time and is not
  modelled: a message not acknowledged is pending again at the next fetch.
\<close>

definition consumer_fetch :: "broker \<Rightarrow> string \<Rightarrow> nat \<Rightarrow> error + (nat \<times> stored) list \<times> broker" where
  "consumer_fetch b streamName n =
     (case streams_info b streamName of
        Inl e \<Rightarrow> Inl e
      | Inr s \<Rightarrow>
          let batch = take n (pending (slots s) 1) in
          Inr (map (\<lambda>(seq, m). (seq, m\<lparr>deliveryCount := Suc (deliveryCount m)\<rparr>)) batch,
               set_stream b streamName (s\<lparr>slots := deliver (map fst batch) (slots s)\<rparr>)))"

text \<open>
  \<open>msg.ack()\<close>: the message is never handed out again; a stream with work-queue
  retention drops it.
\<close>

definition msg_ack :: "broker \<Rightarrow> string \<Rightarrow> nat \<Rightarrow> broker" where
  "msg_ack b streamName seq =
     (case map_of (streams b) streamName of
        None \<Rightarrow> b
      | Some s \<Rightarrow>
          if \<not> (1 \<le> seq \<and> seq \<le> length (slots s)) then b
          else (case slots s ! (seq - 1) of
                  None \<Rightarrow> b
                | Some m \<Rightarrow>
                    set_stream b streamName
                      (s\<lparr>slots := (slots s)[seq - 1 :=
                          (if workqueueRetention s then None else Some (m\<lparr>acked := True\<rparr>))]\<rparr>)))"

text \<open>
  \<open>js.consumers.get(stream)\<close> with no consumer name gives an ordered consumer: it is
  created for the call and gone after it, reads the stream from its first message
  whatever earlier consumers acknowledged, and keeps no acknowledgements, so \<open>msg.ack()\<close>
  on one of its messages changes nothing in the broker. The repository's session notes
  record the effect on the inbox as "Bug 2: DM Redelivery. Direct messages kept
  redelivering - no durable consumer for inbox streams".
\<close>

fun filled :: "stored option list \<Rightarrow> nat \<Rightarrow> (nat \<times> stored) list" where
  "filled [] seq = []"
| "filled (None # rest) seq = filled rest (Suc seq)"
| "filled (Some m # rest) seq = (seq, m) # filled rest (Suc seq)"

definition ordered_fetch :: "broker \<Rightarrow> string \<Rightarrow> nat \<Rightarrow> error + (nat \<times> stored) list" where
  "ordered_fetch b streamName n =
     (case streams_info b streamName of
        Inl e \<Rightarrow> Inl e
      | Inr s \<Rightarrow> Inr (take n (filled (slots s) 1)))"

definition ordered_ack :: "broker \<Rightarrow> string \<Rightarrow> nat \<Rightarrow> broker" where
  "ordered_ack b streamName seq = b"

section \<open>Work queue (\<open>workqueue.ts\<close>)\<close>

text \<open>Decimal digits of a number, for the template strings that print one.\<close>

fun string_of_nat :: "nat \<Rightarrow> string" where
  "string_of_nat n =
     (if n < 10 then [''0123456789'' ! n]
      else string_of_nat (n div 10) @ [''0123456789'' ! (n mod 10)])"

definition string_of_int :: "int \<Rightarrow> string" where
  "string_of_int i =
     (if i < 0 then CHR ''-'' # string_of_nat (nat (- i)) else string_of_nat (nat i))"

definition is_alnum :: "char \<Rightarrow> bool" where
  "is_alnum c =
     (c \<in> set ''abcdefghijklmnopqrstuvwxyzABCDEFGHIJKLMNOPQRSTUVWXYZ0123456789'')"

definition to_upper :: "char \<Rightarrow> char" where
  "to_upper c =
     (case map_of (zip ''abcdefghijklmnopqrstuvwxyz'' ''ABCDEFGHIJKLMNOPQRSTUVWXYZ'') c of
        Some u \<Rightarrow> u
      | None \<Rightarrow> c)"

text \<open>\<open>capability.replace(/[^a-zA-Z0-9]/g, '_').toUpperCase()\<close>\<close>

definition sanitizeCapability :: "string \<Rightarrow> string" where
  "sanitizeCapability capability' =
     map to_upper (map (\<lambda>c. if is_alnum c then c else CHR ''_'') capability')"

definition workQueueStreamName :: "string \<Rightarrow> string" where
  "workQueueStreamName capability' = ''WORKQUEUE_'' @ sanitizeCapability capability'"

definition workQueueConsumerName :: "string \<Rightarrow> string" where
  "workQueueConsumerName capability' = ''worker-'' @ sanitizeCapability capability'"

definition getWorkQueueSubject :: "string \<Rightarrow> string" where
  "getWorkQueueSubject capability' = ''global.workqueue.'' @ capability'"

definition is_hex :: "char \<Rightarrow> bool" where
  "is_hex c = (c \<in> set ''0123456789abcdefABCDEF'')"

text \<open>
  The regular expression
  \<open>/^[0-9a-f]{8}-[0-9a-f]{4}-4[0-9a-f]{3}-[89ab][0-9a-f]{3}-[0-9a-f]{12}$/i\<close>,
  position by position.
\<close>

definition isValidUUID :: "string \<Rightarrow> bool" where
  "isValidUUID uuid =
     (length uuid = 36 \<and>
      list_all is_hex (take 8 uuid) \<and> uuid ! 8 = CHR ''-'' \<and>
      list_all is_hex (take 4 (drop 9 uuid)) \<and> uuid ! 13 = CHR ''-'' \<and>
      uuid ! 14 = CHR ''4'' \<and>
      list_all is_hex (take 3 (drop 15 uuid)) \<and> uuid ! 18 = CHR ''-'' \<and>
      uuid ! 19 \<in> set ''89abAB'' \<and>
      list_all is_hex (take 3 (drop 20 uuid)) \<and> uuid ! 23 = CHR ''-'' \<and>
      list_all is_hex (take 12 (drop 24 uuid)))"

text \<open>
  The white space \<open>trim()\<close> removes, among the characters of a byte string: space,
  tab, line feed, vertical tab, form feed and carriage return.
\<close>

definition is_space :: "char \<Rightarrow> bool" where
  "is_space c = (c \<in> {CHR '' '', CHR 0x09, CHR 0x0A, CHR 0x0B, CHR 0x0C, CHR 0x0D})"

text \<open>\<open>!capability || capability.trim() === ''\<close>\<close>

definition blank :: "string \<Rightarrow> bool" where
  "blank s = list_all is_space s"

definition validateWorkItem :: "WorkItem \<Rightarrow> error + unit" where
  "validateWorkItem item =
     (if \<not> isValidUUID (wi_id item)
      then Inl (Error (''Invalid work item ID: '' @ wi_id item @ '' (must be UUID v4)''))
      else if blank (capability item)
      then Inl (Error ''Work item capability cannot be empty'')
      else (case priority item of
              None \<Rightarrow> Inr ()
            | Some p \<Rightarrow>
                if p < 1 \<or> p > 10
                then Inl (Error (''Invalid priority: '' @ string_of_int p @ '' (must be 1-10)''))
                else Inr ()))"

text \<open>
  \<open>publishWorkItem\<close>: the validation and \<open>getJetStreamClient()\<close> run before the \<open>try\<close>
  and throw as they are; a failure of \<open>js.publish\<close> is wrapped.
\<close>

definition publishWorkItem :: "broker \<Rightarrow> WorkItem \<Rightarrow> error + broker \<times> string" where
  "publishWorkItem b item =
     (case validateWorkItem item of
        Inl e \<Rightarrow> Inl e
      | Inr _ \<Rightarrow>
          (case getJetStreamClient b of
             Inl e \<Rightarrow> Inl e
           | Inr _ \<Rightarrow>
               (case js_publish b (getWorkQueueSubject (capability item)) (WorkJSON item) None of
                  Inl e \<Rightarrow>
                    Inl (Error (''Failed to publish work item '' @ wi_id item @ '' to queue '' @
                                capability item @ '': '' @ message e))
                | Inr b' \<Rightarrow> Inr (b', wi_id item))))"

text \<open>
  The \<open>for await\<close> loop of \<open>claimWorkItem\<close> over the fetched messages: the first
  message that parses is acknowledged and returned with the broker's delivery count as
  its \<open>attempts\<close> (\<open>deliveryCount || 1\<close>); one that does not parse is acknowledged and
  skipped.
\<close>

fun claim_loop :: "broker \<Rightarrow> string \<Rightarrow> (nat \<times> stored) list \<Rightarrow> WorkItem option \<times> broker" where
  "claim_loop b streamName [] = (None, b)"
| "claim_loop b streamName ((seq, m) # rest) =
     (case parseWorkItem (data m) of
        Some item \<Rightarrow>
          (Some (item\<lparr>attempts := (if deliveryCount m = 0 then 1 else deliveryCount m)\<rparr>),
           msg_ack b streamName seq)
      | None \<Rightarrow> claim_loop (msg_ack b streamName seq) streamName rest)"

text \<open>The body of the outer \<open>try\<close> of \<open>claimWorkItem\<close>.\<close>

definition claim_body :: "broker \<Rightarrow> string \<Rightarrow> error + WorkItem option \<times> broker" where
  "claim_body b capability' =
     (let streamName = workQueueStreamName capability';
          consumerName = workQueueConsumerName capability' in
      case streams_info b streamName of
        Inl _ \<Rightarrow> Inr (None, b)
      | Inr _ \<Rightarrow>
          (case (case consumers_info b streamName consumerName of
                   Inl _ \<Rightarrow> consumers_add b streamName consumerName
                 | Inr _ \<Rightarrow> Inr b) of
             Inl e \<Rightarrow> Inl e
           | Inr b1 \<Rightarrow>
               (case consumer_fetch b1 streamName 1 of
                  Inl e \<Rightarrow> Inl e
                | Inr (messages, b2) \<Rightarrow> Inr (claim_loop b2 streamName messages))))"

text \<open>
  \<open>claimWorkItem(capability, timeoutMs)\<close>. The two accessors run before the \<open>try\<close>.
  The time-out only bounds how long the fetch waits and is not part of the result.
\<close>

definition claimWorkItem :: "broker \<Rightarrow> string \<Rightarrow> nat \<Rightarrow> error + WorkItem option \<times> broker" where
  "claimWorkItem b capability' timeoutMs =
     (case getJetStreamClient b of
        Inl e \<Rightarrow> Inl e
      | Inr _ \<Rightarrow>
          (case getJetStreamManager b of
             Inl e \<Rightarrow> Inl e
           | Inr _ \<Rightarrow>
               (case claim_body b capability' of
                  Inl e \<Rightarrow>
                    if str_includes (message e) ''timeout'' \<or> str_includes (message e) ''expired''
                    then Inr (None, b)
                    else Inl (Error (''Failed to claim work from '' @ capability' @
                                     '' queue: '' @ message e))
                | Inr r \<Rightarrow> Inr r)))"

section \<open>Dead letter queue (\<open>dlq.ts\<close>)\<close>

definition DLQ_SUBJECT :: string where
  "DLQ_SUBJECT = ''global.workqueue.deadletter''"


text \<open>\<open>moveToDeadLetter(item, reason, errors?)\<close> at time \<open>now\<close>.\<close>

definition moveToDeadLetter ::
  "broker \<Rightarrow> WorkItem \<Rightarrow> string \<Rightarrow> string list option \<Rightarrow> int \<Rightarrow> error + broker" where
  "moveToDeadLetter b item reason' errors' now =
     (case getJetStreamClient b of
        Inl e \<Rightarrow> Inl e
      | Inr _ \<Rightarrow>
          (let dlqItem =
                 \<lparr>dlq_id = wi_id item, workItem = item, reason = reason',
                  dlq_attempts = attempts item, failedAt = now,
                  errors = (case errors' of None \<Rightarrow> [] | Some es \<Rightarrow> es)\<rparr> in
           case js_publish b DLQ_SUBJECT (DLQJSON dlqItem) (Some (wi_id item)) of
             Inl e \<Rightarrow>
               Inl (Error (''Failed to move item '' @ wi_id item @ '' to DLQ: '' @ message e))
           | Inr b' \<Rightarrow> Inr b'))"









section \<open>Coordinator (\<open>coordinator.ts\<close>)\<close>

record WorkAssignment =
  workItemId :: string
  a_taskId :: string
  a_capability :: string
  assignedTo :: "string option"
  assignedAt :: "int option"
  a_status :: AssignmentStatus
  progress :: int
  a_attempts :: nat
  maxAttempts :: nat
  createdAt :: int
  completedAt :: "int option"
  a_result :: "string option"
  a_error :: "string option"

record CoordinatorConfig =
  cfg_maxAttempts :: nat
  assignmentTimeoutMs :: int
  autoRetry :: bool
  coordinatorGuid :: string
  cfg_projectId :: string
  cfg_username :: "string option"

text \<open>
  The two maps of the class. A timer is kept as the time at which it fires:
  \<open>timeoutCheckers c i = Some t\<close> says that a time-out check of assignment \<open>i\<close> is armed
  for time \<open>t\<close>.
\<close>

record Coordinator =
  config :: CoordinatorConfig
  assignments :: "string \<rightharpoonup> WorkAssignment"
  timeoutCheckers :: "string \<rightharpoonup> int"

definition clearTimeoutChecker :: "Coordinator \<Rightarrow> string \<Rightarrow> Coordinator" where
  "clearTimeoutChecker c i = c\<lparr>timeoutCheckers := (timeoutCheckers c)(i := None)\<rparr>"

definition startTimeoutChecker :: "Coordinator \<Rightarrow> string \<Rightarrow> int \<Rightarrow> Coordinator" where
  "startTimeoutChecker c i now =
     (let c1 = clearTimeoutChecker c i in
      c1\<lparr>timeoutCheckers := (timeoutCheckers c1)(i \<mapsto> now + assignmentTimeoutMs (config c1))\<rparr>)"

definition resetTimeoutChecker :: "Coordinator \<Rightarrow> string \<Rightarrow> int \<Rightarrow> Coordinator" where
  "resetTimeoutChecker c i now = startTimeoutChecker c i now"

definition recordClaim :: "Coordinator \<Rightarrow> string \<Rightarrow> string \<Rightarrow> int \<Rightarrow> bool \<times> Coordinator" where
  "recordClaim c i workerGuid now =
     (case assignments c i of
        None \<Rightarrow> (False, c)
      | Some assignment \<Rightarrow>
          if a_status assignment \<noteq> Pending then (False, c)
          else
            (True,
             resetTimeoutChecker
               (c\<lparr>assignments := (assignments c)(i \<mapsto>
                    assignment\<lparr>assignedTo := Some workerGuid, assignedAt := Some now,
                                a_status := Assigned,
                                a_attempts := a_attempts assignment + 1\<rparr>)\<rparr>)
               i now))"

definition recordProgress :: "Coordinator \<Rightarrow> string \<Rightarrow> int \<Rightarrow> int \<Rightarrow> bool \<times> Coordinator" where
  "recordProgress c i progress' now =
     (case assignments c i of
        None \<Rightarrow> (False, c)
      | Some assignment \<Rightarrow>
          if a_status assignment \<noteq> Assigned \<and> a_status assignment \<noteq> InProgress
          then (False, c)
          else
            (True,
             resetTimeoutChecker
               (c\<lparr>assignments := (assignments c)(i \<mapsto>
                    assignment\<lparr>a_status := InProgress,
                                progress := min 100 (max 0 progress')\<rparr>)\<rparr>)
               i now))"

definition recordCompletion ::
  "Coordinator \<Rightarrow> string \<Rightarrow> string option \<Rightarrow> int \<Rightarrow> bool \<times> Coordinator" where
  "recordCompletion c i result' now =
     (case assignments c i of
        None \<Rightarrow> (False, c)
      | Some assignment \<Rightarrow>
          (True,
           clearTimeoutChecker
             (c\<lparr>assignments := (assignments c)(i \<mapsto>
                  assignment\<lparr>a_status := Completed, progress := 100,
                              completedAt := Some now,
                              a_result := (case result' of None \<Rightarrow> a_result assignment
                                           | Some r \<Rightarrow> Some r)\<rparr>)\<rparr>)
             i))"

text \<open>The work item \<open>recordError\<close> republishes for a retry.\<close>

definition retryItem :: "Coordinator \<Rightarrow> string \<Rightarrow> WorkAssignment \<Rightarrow> int \<Rightarrow> WorkItem" where
  "retryItem c i assignment now =
     \<lparr>wi_id = i, taskId = a_taskId assignment, capability = a_capability assignment,
      description = ''Retry attempt '' @ string_of_nat (a_attempts assignment + 1),
      priority = Some 7, deadline = None, contextData = None,
      offeredBy = coordinatorGuid (config c), offeredAt = now,
      attempts = a_attempts assignment\<rparr>"

text \<open>The work item \<open>recordError\<close> synthesizes for the dead letter queue.\<close>

definition failedItem :: "Coordinator \<Rightarrow> string \<Rightarrow> WorkAssignment \<Rightarrow> WorkItem" where
  "failedItem c i assignment =
     \<lparr>wi_id = i, taskId = a_taskId assignment, capability = a_capability assignment,
      description = ''Failed work item'', priority = None, deadline = None,
      contextData = None, offeredBy = coordinatorGuid (config c),
      offeredAt = createdAt assignment, attempts = a_attempts assignment\<rparr>"

text \<open>
  \<open>recordError(workItemId, error, recoverable)\<close> at time \<open>now\<close>. The assignment is
  updated before the broker is called, so the result carries the coordinator and the
  broker as the call leaves them, also when \<open>publishWorkItem\<close> or \<open>moveToDeadLetter\<close>
  throws.
\<close>

definition recordError ::
  "Coordinator \<Rightarrow> broker \<Rightarrow> string \<Rightarrow> string \<Rightarrow> bool \<Rightarrow> int \<Rightarrow>
     (error + bool) \<times> Coordinator \<times> broker" where
  "recordError c b i err recoverable now =
     (case assignments c i of
        None \<Rightarrow> (Inr False, c, b)
      | Some assignment0 \<Rightarrow>
          let assignment = assignment0\<lparr>a_error := Some err\<rparr> in
          if recoverable \<and> autoRetry (config c) \<and> a_attempts assignment < maxAttempts assignment
          then
            let c1 = c\<lparr>assignments := (assignments c)(i \<mapsto>
                         assignment\<lparr>a_status := Pending, assignedTo := None,
                                     assignedAt := None, progress := 0\<rparr>)\<rparr> in
            (case publishWorkItem b (retryItem c i assignment now) of
               Inl e \<Rightarrow> (Inl e, c1, b)
             | Inr (b', _) \<Rightarrow> (Inr True, startTimeoutChecker c1 i now, b'))
          else
            let c1 = clearTimeoutChecker
                       (c\<lparr>assignments := (assignments c)(i \<mapsto>
                            assignment\<lparr>a_status := Failed\<rparr>)\<rparr>) i in
            (case moveToDeadLetter b (failedItem c i assignment) err (Some [err]) now of
               Inl e \<Rightarrow> (Inl e, c1, b)
             | Inr b' \<Rightarrow> (Inr True, c1, b')))"

text \<open>
  The callback of the timer armed by \<open>startTimeoutChecker\<close>, when it fires: it reports
  a recoverable error for an assignment that is still pending or assigned.
\<close>

definition timeoutFired ::
  "Coordinator \<Rightarrow> broker \<Rightarrow> string \<Rightarrow> int \<Rightarrow> (error + bool) \<times> Coordinator \<times> broker" where
  "timeoutFired c b i now =
     (case assignments c i of
        None \<Rightarrow> (Inr False, c, b)
      | Some assignment \<Rightarrow>
          if a_status assignment = Pending \<or> a_status assignment = Assigned
          then recordError c b i ''Assignment timed out'' True now
          else (Inr False, c, b))"

section \<open>Registry tools (\<open>tools/registry.ts\<close>)\<close>

text \<open>
  Modelled from the spec: \<open>kv.ts\<close> is not among the sources. The registry is the
  key/value collection of section 4.1, keyed by GUID, in the order its keys are
  listed; \<open>get\<close> of a missing key is \<open>null\<close>, \<open>put\<close> writes the entry under its GUID,
  \<open>list\<close> returns the entries that pass the filter. Each operation can be rejected by
  the broker: \<open>getError\<close>, \<open>putError\<close> and \<open>listError\<close> hold the message it then throws.
\<close>

record KV =
  bucket :: "(string \<times> RegistryEntry) list"
  getError :: "string option"
  putError :: "string option"
  listError :: "string option"




record SessionState =
  s_handle :: "string option"
  agentGuid :: "string option"
  registeredEntry :: "RegistryEntry option"

text \<open>
  What a tool call can read and change: the session, the registry, the broker, and
  the two module variables \<open>heartbeatCleanup\<close> and \<open>inboxUnsubscribe\<close> (whether a
  heartbeat task and an inbox subscription of this session are running).
\<close>

record World =
  session :: SessionState
  registry :: KV
  nats :: broker
  heartbeatCleanup :: bool
  inboxUnsubscribe :: bool

text \<open>
  The result of a tool call: \<open>isError\<close> with its text, or the content. The text of a
  successful response is not modelled; \<open>Content\<close> carries the value it renders.
\<close>

datatype 'a ToolResult = IsError string | Content 'a

text \<open>\<open>!state.agentGuid || !state.registeredEntry\<close> fails: the caller is registered.\<close>

definition registered :: "SessionState \<Rightarrow> (string \<times> RegistryEntry) option" where
  "registered st =
     (case (agentGuid st, registeredEntry st) of
        (Some g, Some e) \<Rightarrow> if g = [] then None else Some (g, e)
      | _ \<Rightarrow> None)"











subsection \<open>Reading the inbox\<close>

record ReadArgs =
  arg_limit :: "nat option"
  arg_messageType :: "string option"
  arg_senderGuid :: "string option"

text \<open>A filter argument is applied when it is a non-empty string.\<close>

definition given :: "string option \<Rightarrow> string option" where
  "given a = (case a of None \<Rightarrow> None | Some v \<Rightarrow> if v = [] then None else Some v)"

definition matchesFilters :: "ReadArgs \<Rightarrow> InboxMessage \<Rightarrow> bool" where
  "matchesFilters args p =
     (\<not> (case given (arg_messageType args) of None \<Rightarrow> False
          | Some t \<Rightarrow> messageType p \<noteq> t) \<and>
      \<not> (case given (arg_senderGuid args) of None \<Rightarrow> False
          | Some g \<Rightarrow> senderGuid p \<noteq> g))"

definition readLimit :: "ReadArgs \<Rightarrow> nat" where
  "readLimit args = min (case arg_limit args of None \<Rightarrow> 10 | Some l \<Rightarrow> l) 100"

definition inboxStreamName :: "string \<Rightarrow> string" where
  "inboxStreamName readerGuid =
     ''INBOX_'' @ map (\<lambda>c. if c = CHR ''-'' then CHR ''_'' else c) readerGuid"

text \<open>
  The \<open>for await\<close> loop over the fetched messages, with the two arrays \<open>messages\<close> and
  \<open>messagesToAck\<close> (here the sequence numbers to acknowledge) as accumulators: a
  message that does not parse or does not match is acknowledged at once; a matching
  one is kept, and the loop ends when \<open>limit\<close> messages are kept.
\<close>

fun read_loop ::
  "ReadArgs \<Rightarrow> string \<Rightarrow> (nat \<times> stored) list \<Rightarrow> InboxMessage list \<Rightarrow> nat list \<Rightarrow> broker \<Rightarrow>
     InboxMessage list \<times> nat list \<times> broker" where
  "read_loop args streamName [] messages messagesToAck b = (messages, messagesToAck, b)"
| "read_loop args streamName ((seq, m) # rest) messages messagesToAck b =
     (case parseInboxMessage (data m) of
        None \<Rightarrow> read_loop args streamName rest messages messagesToAck (ordered_ack b streamName seq)
      | Some p \<Rightarrow>
          if matchesFilters args p
          then
            if length (messages @ [p]) \<ge> readLimit args
            then (messages @ [p], messagesToAck @ [seq], b)
            else read_loop args streamName rest (messages @ [p]) (messagesToAck @ [seq]) b
          else read_loop args streamName rest messages messagesToAck (ordered_ack b streamName seq))"

text \<open>
  \<open>handleReadDirectMessages\<close>. "No direct messages in your inbox." is \<open>Content []\<close>.
  \<open>Array.prototype.sort\<close> is stable, as \<open>sort_key\<close> is. The consumer is the ordered
  consumer of \<open>js.consumers.get(streamName)\<close>; the batch it fetches is handed over
  whole.
\<close>

definition handleReadDirectMessages :: "World \<Rightarrow> ReadArgs \<Rightarrow> InboxMessage list ToolResult \<times> World" where
  "handleReadDirectMessages w args =
     (if (case given (arg_senderGuid args) of None \<Rightarrow> False | Some g \<Rightarrow> \<not> isValidUUID g)
      then (IsError ''Error: Invalid senderGuid format. Must be a valid UUID v4.'', w)
      else
        (case registered (session w) of
           None \<Rightarrow>
             (IsError ''Error: You must be registered to read messages. Use register_agent first.'', w)
         | Some (readerGuid, _) \<Rightarrow>
             (let streamName = inboxStreamName readerGuid in
              case getJetStreamManager (nats w) of
                Inl e \<Rightarrow> (IsError (''Error: Failed to read messages: '' @ message e), w)
              | Inr _ \<Rightarrow>
                  (case getJetStreamClient (nats w) of
                     Inl e \<Rightarrow> (IsError (''Error: Failed to read messages: '' @ message e), w)
                   | Inr _ \<Rightarrow>
                       (case streams_info (nats w) streamName of
                          Inl _ \<Rightarrow> (Content [], w)
                        | Inr _ \<Rightarrow>
                            (case ordered_fetch (nats w) streamName (readLimit args * 2) of
                               Inl e \<Rightarrow>
                                 if str_includes (message e) ''no messages'' \<or>
                                    str_includes (message e) ''timeout''
                                 then (Content [], w)
                                 else (IsError (''Error: Failed to read messages: '' @ message e), w)
                             | Inr fetched \<Rightarrow>
                                 (case read_loop args streamName fetched [] [] (nats w) of
                                    (messages, messagesToAck, b2) \<Rightarrow>
                                      (Content (sort_key timestamp messages),
                                       w\<lparr>nats := foldl (\<lambda>b seq. ordered_ack b streamName seq) b2
                                                  messagesToAck\<rparr>))))))))"

section \<open>Example states\<close>

text \<open>A coordinator that tracks one assignment, and a broker with the work queue of the
  capability \<open>typescript\<close> and the dead letter queue, connected and not.\<close>

definition exampleId :: string where
  "exampleId = ''11111111-1111-4111-8111-111111111111''"

definition exampleConfig :: CoordinatorConfig where
  "exampleConfig =
     \<lparr>cfg_maxAttempts = 3, assignmentTimeoutMs = 300000, autoRetry = True,
      coordinatorGuid = ''99999999-9999-4999-8999-999999999999'',
      cfg_projectId = ''1234567890abcdef'', cfg_username = None\<rparr>"

definition exampleAssignment :: WorkAssignment where
  "exampleAssignment =
     \<lparr>workItemId = exampleId, a_taskId = ''task-1'', a_capability = ''typescript'',
      assignedTo = Some ''22222222-2222-4222-8222-222222222222'', assignedAt = Some 2000,
      a_status = Assigned, progress = 0, a_attempts = 1, maxAttempts = 3, createdAt = 1000,
      completedAt = None, a_result = None, a_error = None\<rparr>"

definition coordinatorWith :: "WorkAssignment \<Rightarrow> Coordinator" where
  "coordinatorWith a =
     \<lparr>config = exampleConfig, assignments = [exampleId \<mapsto> a],
      timeoutCheckers = [exampleId \<mapsto> 302000]\<rparr>"

definition emptyStream :: "string \<Rightarrow> bool \<Rightarrow> stream" where
  "emptyStream subject wq =
     \<lparr>subjects = [subject], slots = [], msgIDs = [], workqueueRetention = wq\<rparr>"

definition upBroker :: broker where
  "upBroker =
     \<lparr>jetStreamClient = True, jetStreamManager = True,
      streams = [(''WORKQUEUE_TYPESCRIPT'', emptyStream ''global.workqueue.typescript'' True),
                 (''WORKQUEUE_DEADLETTER'', emptyStream ''global.workqueue.deadletter'' False)],
      consumers = []\<rparr>"

definition downBroker :: broker where
  "downBroker = upBroker\<lparr>jetStreamClient := False, jetStreamManager := False\<rparr>"








text \<open>
  The session and the stored entry of the suites \<open>describe('deregister_agent tool')\<close>
  and \<open>describe('update_presence tool')\<close>, and a presence update to \<open>busy\<close>.
\<close>

definition testGuid :: string where
  "testGuid = ''12345678-1234-4234-8234-123456789012''"

definition testEntry :: RegistryEntry where
  "testEntry =
     \<lparr>guid = testGuid, agentType = ''developer'', handle = ''test-agent'',
      hostname = ''test-host'', projectId = ''1234567890abcdef'',
      natsUrl = ''nats://localhost:4222'', username = None,
      capabilities = [''typescript''], scope = ProjectScope, visibility = ProjectOnly,
      status = Online, currentTaskCount = 0, registeredAt = 1736931600000,
      lastHeartbeat = 1736935200000\<rparr>"

definition testWorld :: World where
  "testWorld =
     \<lparr>session = \<lparr>s_handle = Some ''test-agent'', agentGuid = Some testGuid,
                  registeredEntry = Some testEntry\<rparr>,
      registry = \<lparr>bucket = [(testGuid, testEntry)], getError = None, putError = None,
                   listError = None\<rparr>,
      nats = upBroker, heartbeatCleanup = True, inboxUnsubscribe = True\<rparr>"








text \<open>
  The registered session of the test suites with one text message in its inbox stream,
  and a read with no argument.
\<close>

definition helloMessage :: InboxMessage where
  "helloMessage =
     \<lparr>msg_id = ''33333333-3333-4333-8333-333333333333'',
      senderGuid = ''22222222-2222-4222-8222-222222222222'', senderHandle = ''other-agent'',
      recipientGuid = testGuid, messageType = ''text'', content = ''hello'',
      metadata = None, timestamp = 1736935200000\<rparr>"

definition inboxWorld :: World where
  "inboxWorld =
     testWorld\<lparr>nats := upBroker\<lparr>streams :=
       [(''INBOX_12345678_1234_4234_8234_123456789012'',
         \<lparr>subjects = [''global.agent.12345678-1234-4234-8234-123456789012''],
          slots = [Some \<lparr>data = InboxJSON helloMessage, deliveryCount = 0, acked = False\<rparr>],
          msgIDs = [], workqueueRetention = False\<rparr>)]\<rparr>\<rparr>"

definition noFilter :: ReadArgs where
  "noFilter = \<lparr>arg_limit = None, arg_messageType = None, arg_senderGuid = None\<rparr>"

section \<open>Theorems\<close>

subsection \<open>Visibility\<close>

text \<open>
  C2. For every registry entry and requester, \<open>isVisibleTo\<close> returns: for \<open>private\<close>
  visibility, true only when the requester's guid is the entry's; for \<open>project-only\<close>,
  true when the guids are equal or the project ids are equal; for \<open>user-only\<close>, true
  only when both sides have a non-empty username and they match, or the requester is
  the entry itself; for \<open>public\<close>, always true.
\<close>

theorem isVisibleTo_truth_table:
  "(visibility entry = Private \<longrightarrow>
      isVisibleTo entry requester = (req_guid requester = guid entry)) \<and>
   (visibility entry = ProjectOnly \<longrightarrow>
      isVisibleTo entry requester =
        (req_guid requester = guid entry \<or> req_projectId requester = projectId entry)) \<and>
   (visibility entry = UserOnly \<longrightarrow>
      isVisibleTo entry requester =
        ((\<exists>u. u \<noteq> [] \<and> username entry = Some u \<and> req_username requester = Some u) \<or>
         req_guid requester = guid entry)) \<and>
   (visibility entry = Public \<longrightarrow> isVisibleTo entry requester)"
  by (auto simp: isVisibleTo_def usernames_match_def split: option.splits)

text \<open>The cases of the suite \<open>describe('isVisibleTo')\<close>, read off the theorem.\<close>

theorem isVisibleTo_truth_table_witness:
  "isVisibleTo baseEntry (sameProjectRequester\<lparr>req_guid := guid baseEntry\<rparr>) \<and>
   \<not> isVisibleTo baseEntry sameProjectRequester \<and>
   \<not> isVisibleTo baseEntry differentProjectRequester \<and>
   isVisibleTo (baseEntry\<lparr>visibility := ProjectOnly\<rparr>) sameProjectRequester \<and>
   \<not> isVisibleTo (baseEntry\<lparr>visibility := ProjectOnly\<rparr>) differentProjectRequester \<and>
   isVisibleTo (baseEntry\<lparr>visibility := UserOnly\<rparr>) sameUserRequester \<and>
   \<not> isVisibleTo (baseEntry\<lparr>visibility := UserOnly\<rparr>) sameProjectRequester \<and>
   \<not> isVisibleTo (baseEntry\<lparr>visibility := UserOnly, username := None\<rparr>) sameUserRequester \<and>
   \<not> isVisibleTo (baseEntry\<lparr>visibility := UserOnly\<rparr>) (sameUserRequester\<lparr>req_username := None\<rparr>) \<and>
   isVisibleTo (baseEntry\<lparr>visibility := Public\<rparr>) differentProjectRequester"
  using isVisibleTo_truth_table [of baseEntry "sameProjectRequester\<lparr>req_guid := guid baseEntry\<rparr>"]
    isVisibleTo_truth_table [of baseEntry sameProjectRequester]
    isVisibleTo_truth_table [of baseEntry differentProjectRequester]
    isVisibleTo_truth_table [of "baseEntry\<lparr>visibility := ProjectOnly\<rparr>" sameProjectRequester]
    isVisibleTo_truth_table [of "baseEntry\<lparr>visibility := ProjectOnly\<rparr>" differentProjectRequester]
    isVisibleTo_truth_table [of "baseEntry\<lparr>visibility := UserOnly\<rparr>" sameUserRequester]
    isVisibleTo_truth_table [of "baseEntry\<lparr>visibility := UserOnly\<rparr>" sameProjectRequester]
    isVisibleTo_truth_table [of "baseEntry\<lparr>visibility := UserOnly, username := None\<rparr>" sameUserRequester]
    isVisibleTo_truth_table [of "baseEntry\<lparr>visibility := UserOnly\<rparr>" "sameUserRequester\<lparr>req_username := None\<rparr>"]
    isVisibleTo_truth_table [of "baseEntry\<lparr>visibility := Public\<rparr>" differentProjectRequester]
  by (simp add: baseEntry_def sameProjectRequester_def differentProjectRequester_def
      sameUserRequester_def)

subsection \<open>Redaction\<close>




subsection \<open>Coordinator\<close>

text \<open>
  C1. Once the status of an assignment is \<open>completed\<close> or \<open>failed\<close>, no call to
  \<open>recordClaim\<close>, \<open>recordProgress\<close>, \<open>recordCompletion\<close> or \<open>recordError\<close> changes its
  status, assignedTo or progress. \<open>recordClaim\<close> and \<open>recordProgress\<close> check the status
  and keep to this; \<open>recordCompletion\<close> and \<open>recordError\<close> have no such check. The code
  at the failing inputs: \<open>recordCompletion\<close> turns a failed assignment into a completed
  one with progress 100, and \<open>recordError\<close> turns a completed assignment into a pending
  one with progress 0 (recoverable) or into a failed one (not recoverable).
\<close>

theorem terminal_status_overwritten:
  "map_option a_status
     (assignments (snd (recordCompletion (coordinatorWith (exampleAssignment\<lparr>a_status := Failed\<rparr>))
        exampleId None 9000)) exampleId) = Some Completed \<and>
   map_option progress
     (assignments (snd (recordCompletion (coordinatorWith (exampleAssignment\<lparr>a_status := Failed\<rparr>))
        exampleId None 9000)) exampleId) = Some 100 \<and>
   map_option a_status
     (assignments (fst (snd (recordError
        (coordinatorWith (exampleAssignment\<lparr>a_status := Completed, progress := 100\<rparr>))
        upBroker exampleId ''late failure'' True 9000))) exampleId) = Some Pending \<and>
   map_option progress
     (assignments (fst (snd (recordError
        (coordinatorWith (exampleAssignment\<lparr>a_status := Completed, progress := 100\<rparr>))
        upBroker exampleId ''late failure'' True 9000))) exampleId) = Some 0 \<and>
   map_option a_status
     (assignments (fst (snd (recordError
        (coordinatorWith (exampleAssignment\<lparr>a_status := Completed, progress := 100\<rparr>))
        upBroker exampleId ''late failure'' False 9000))) exampleId) = Some Failed"
  by code_simp

text \<open>The two operations that do check the status leave a finished assignment as it is.\<close>

lemma recordClaim_keeps_terminal:
  "assignments c i = Some a \<Longrightarrow> a_status a = Completed \<or> a_status a = Failed \<Longrightarrow>
   recordClaim c j w now = (r, c') \<Longrightarrow> assignments c' i = Some a"
  by (auto simp: recordClaim_def resetTimeoutChecker_def startTimeoutChecker_def
      clearTimeoutChecker_def Let_def split: option.splits if_splits)

lemma recordProgress_keeps_terminal:
  "assignments c i = Some a \<Longrightarrow> a_status a = Completed \<or> a_status a = Failed \<Longrightarrow>
   recordProgress c j p now = (r, c') \<Longrightarrow> assignments c' i = Some a"
  by (auto simp: recordProgress_def resetTimeoutChecker_def startTimeoutChecker_def
      clearTimeoutChecker_def Let_def split: option.splits if_splits)

text \<open>
  \<open>recordClaim\<close> returns false and changes nothing when the work item is unknown or its
  assignment is not pending, and otherwise assigns it to the worker and counts the
  attempt; \<open>recordProgress\<close> returns false and changes nothing when the work item is
  unknown or its assignment is neither assigned nor in progress, and otherwise records
  the progress clamped to [0,100]; a successful claim or progress report arms the timer
  anew.
\<close>

theorem claim_and_progress_guards:
  "(assignments c i = None \<longrightarrow>
      recordClaim c i workerGuid now = (False, c) \<and> recordProgress c i p now = (False, c)) \<and>
   (\<forall>a. assignments c i = Some a \<longrightarrow>
      (a_status a \<noteq> Pending \<longrightarrow> recordClaim c i workerGuid now = (False, c)) \<and>
      (a_status a = Pending \<longrightarrow>
         recordClaim c i workerGuid now =
           (True,
            c\<lparr>assignments := (assignments c)(i \<mapsto>
                 a\<lparr>assignedTo := Some workerGuid, assignedAt := Some now,
                   a_status := Assigned, a_attempts := a_attempts a + 1\<rparr>),
              timeoutCheckers :=
                (timeoutCheckers c)(i \<mapsto> now + assignmentTimeoutMs (config c))\<rparr>)) \<and>
      (a_status a \<noteq> Assigned \<and> a_status a \<noteq> InProgress \<longrightarrow>
         recordProgress c i p now = (False, c)) \<and>
      (a_status a = Assigned \<or> a_status a = InProgress \<longrightarrow>
         recordProgress c i p now =
           (True,
            c\<lparr>assignments := (assignments c)(i \<mapsto>
                 a\<lparr>a_status := InProgress,
                   progress := (if p < 0 then 0 else if 100 < p then 100 else p)\<rparr>),
              timeoutCheckers :=
                (timeoutCheckers c)(i \<mapsto> now + assignmentTimeoutMs (config c))\<rparr>)))"
  by (auto simp: recordClaim_def recordProgress_def resetTimeoutChecker_def
      startTimeoutChecker_def clearTimeoutChecker_def Let_def min_def max_def)

theorem claim_and_progress_guards_witness:
  "recordClaim (coordinatorWith exampleAssignment) exampleId ''worker'' 9000
     = (False, coordinatorWith exampleAssignment) \<and>
   fst (recordClaim (coordinatorWith (exampleAssignment\<lparr>a_status := Pending\<rparr>)) exampleId
          ''worker'' 9000) = True \<and>
   map_option progress
     (assignments (snd (recordProgress (coordinatorWith exampleAssignment) exampleId 150 9000))
        exampleId) = Some 100 \<and>
   recordProgress (coordinatorWith (exampleAssignment\<lparr>a_status := Failed\<rparr>)) exampleId 50 9000
     = (False, coordinatorWith (exampleAssignment\<lparr>a_status := Failed\<rparr>)) \<and>
   recordClaim (coordinatorWith exampleAssignment) ''unknown'' ''worker'' 9000
     = (False, coordinatorWith exampleAssignment)"
proof -
  have a1: "assignments (coordinatorWith exampleAssignment) exampleId = Some exampleAssignment"
    and a2: "assignments (coordinatorWith (exampleAssignment\<lparr>a_status := Pending\<rparr>)) exampleId
               = Some (exampleAssignment\<lparr>a_status := Pending\<rparr>)"
    and a3: "assignments (coordinatorWith (exampleAssignment\<lparr>a_status := Failed\<rparr>)) exampleId
               = Some (exampleAssignment\<lparr>a_status := Failed\<rparr>)"
    and a4: "assignments (coordinatorWith exampleAssignment) ''unknown'' = None"
    by (simp_all add: coordinatorWith_def exampleId_def)
  have s: "a_status exampleAssignment = Assigned"
    by (simp add: exampleAssignment_def)
  show ?thesis
    using claim_and_progress_guards [of "coordinatorWith exampleAssignment" exampleId "''worker''" 9000 150]
      claim_and_progress_guards [of "coordinatorWith (exampleAssignment\<lparr>a_status := Pending\<rparr>)"
        exampleId "''worker''" 9000 150]
      claim_and_progress_guards [of "coordinatorWith (exampleAssignment\<lparr>a_status := Failed\<rparr>)"
        exampleId "''worker''" 9000 50]
      claim_and_progress_guards [of "coordinatorWith exampleAssignment" "''unknown''" "''worker''" 9000 150]
      a1 a2 a3 a4 s
    by simp
qed






subsection \<open>Publishing a work item\<close>






subsection \<open>Claiming from a queue that does not exist\<close>

text \<open>
  C10, as amended. For every capability for which no work-queue stream exists,
  \<open>claimWorkItem(capability, timeoutMs)\<close> returns \<open>null\<close> without raising an error and
  without creating the stream or a consumer, when the JetStream client and manager are
  initialised; when one of them is not, it throws that accessor's error.
\<close>

theorem claimWorkItem_no_stream:
  "map_of (streams b) (workQueueStreamName capability') = None \<longrightarrow>
     (jetStreamClient b \<and> jetStreamManager b \<longrightarrow>
        claimWorkItem b capability' timeoutMs = Inr (None, b)) \<and>
     (\<not> jetStreamClient b \<longrightarrow>
        claimWorkItem b capability' timeoutMs =
          Inl (Error ''JetStream client not initialized. Call connectToNats() first.'')) \<and>
     (jetStreamClient b \<and> \<not> jetStreamManager b \<longrightarrow>
        claimWorkItem b capability' timeoutMs =
          Inl (Error ''JetStream manager not initialized. Call connectToNats() first.''))"
  by (simp add: claimWorkItem_def claim_body_def getJetStreamClient_def
      getJetStreamManager_def streams_info_def Let_def)

text \<open>
  The claim as first stated has no condition on the connection. The two accessors are
  called before the \<open>try\<close>, so with no JetStream client the call raises.
\<close>

theorem claimWorkItem_raises_counterexample:
  "map_of (streams downBroker) (workQueueStreamName ''rust'') = None \<and>
   claimWorkItem downBroker ''rust'' 5000 =
     Inl (Error ''JetStream client not initialized. Call connectToNats() first.'')"
  by code_simp

theorem claimWorkItem_no_stream_witness:
  "map_of (streams upBroker) (workQueueStreamName ''rust'') = None \<and>
   claimWorkItem upBroker ''rust'' 5000 = Inr (None, upBroker) \<and>
   claimWorkItem downBroker ''rust'' 5000 =
     Inl (Error ''JetStream client not initialized. Call connectToNats() first.'')"
proof -
  have none: "map_of (streams upBroker) (workQueueStreamName ''rust'') = None"
    by code_simp
  have none': "map_of (streams downBroker) (workQueueStreamName ''rust'') = None"
    by code_simp
  have up: "jetStreamClient upBroker \<and> jetStreamManager upBroker"
    by (simp add: upBroker_def)
  have down: "\<not> jetStreamClient downBroker"
    by (simp add: downBroker_def)
  show ?thesis
    using claimWorkItem_no_stream [of upBroker "''rust''" 5000]
      claimWorkItem_no_stream [of downBroker "''rust''" 5000] none none' up down
    by simp
qed

subsection \<open>Retrying and discarding dead letter records\<close>













subsection \<open>Presence updates and deregistration\<close>







subsection \<open>GUID reuse at registration\<close>








subsection \<open>Reading the inbox\<close>

text \<open>
  The acknowledgements of the ordered consumer leave the broker as it is, so a read
  changes nothing.
\<close>

lemma read_loop_broker:
  "read_loop args sn xs ms acks b = (ms', acks', b') \<Longrightarrow> b' = b"
  by (induction args sn xs ms acks b rule: read_loop.induct)
     (auto simp: ordered_ack_def split: option.splits if_splits)

lemma foldl_ordered_ack: "foldl (\<lambda>b seq. ordered_ack b sn seq) b acks = b"
  by (induction acks) (simp_all add: ordered_ack_def)

lemma handleReadDirectMessages_world:
  "handleReadDirectMessages w args = (res, w') \<Longrightarrow> w' = w"
  by (auto simp: handleReadDirectMessages_def Let_def foldl_ordered_ack
      split: option.splits if_splits sum.splits prod.splits dest!: read_loop_broker)

text \<open>
  C9. Reading the inbox fetches up to twice the requested limit of messages, keeps
  only those passing the optional \<open>messageType\<close> and \<open>senderGuid\<close> filters, acknowledges
  every message it examined so that none of them is delivered again, and returns at
  most \<open>limit\<close> kept messages sorted by timestamp. The code at the failing input: the
  inbox holds one text message; a first read returns it and acknowledges it, and a
  second read returns the same message again.
\<close>

theorem inbox_message_read_twice:
  "fst (handleReadDirectMessages inboxWorld noFilter) = Content [helloMessage] \<and>
   fst (handleReadDirectMessages (snd (handleReadDirectMessages inboxWorld noFilter)) noFilter)
     = Content [helloMessage]"
  by code_simp

lemma read_loop_kept:
  "read_loop args sn xs ms acks b = (ms', acks', b') \<Longrightarrow>
   set ms' \<subseteq> set ms \<union> {p. matchesFilters args p}"
  by (induction args sn xs ms acks b rule: read_loop.induct)
     (auto split: option.splits if_splits)

lemma read_loop_length:
  "read_loop args sn xs ms acks b = (ms', acks', b') \<Longrightarrow>
   length ms < readLimit args \<or> xs = [] \<Longrightarrow> length ms' \<le> max (readLimit args) (length ms)"
proof (induction args sn xs ms acks b rule: read_loop.induct)
  case (1 args streamName messages messagesToAck b)
  then show ?case by simp
next
  case (2 args streamName seq m rest messages messagesToAck b)
  then show ?case
    by (auto split: option.splits if_splits)
qed

lemma ordered_fetch_length:
  "ordered_fetch b sn n = Inr fetched \<Longrightarrow> length fetched \<le> n"
  by (auto simp: ordered_fetch_def split: sum.splits)

text \<open>
  What a read returns: the messages are sorted by timestamp, there are at most
  \<open>limit\<close> (capped at 100) of them, and each passes the filters; they come out of a
  batch of at most twice that many.
\<close>

lemma handleReadDirectMessages_result:
  assumes "handleReadDirectMessages w args = (Content ms, w')"
  shows "sorted (map timestamp ms) \<and> length ms \<le> readLimit args \<and>
         (\<forall>p \<in> set ms. matchesFilters args p)"
proof (cases "ms = []")
  case True
  then show ?thesis by simp
next
  case False
  with assms obtain g e fetched messages acks b2
    where "registered (session w) = Some (g, e)"
      and f: "ordered_fetch (nats w) (inboxStreamName g) (readLimit args * 2) = Inr fetched"
      and l: "read_loop args (inboxStreamName g) fetched [] [] (nats w) = (messages, acks, b2)"
      and ms: "ms = sort_key timestamp messages"
    by (auto simp: handleReadDirectMessages_def Let_def
        split: option.splits if_splits sum.splits prod.splits)
  from f have "length fetched \<le> readLimit args * 2" by (rule ordered_fetch_length)
  then have "length ([] :: InboxMessage list) < readLimit args \<or> fetched = []"
    by (cases "readLimit args") auto
  from read_loop_length [OF l this] have "length messages \<le> readLimit args" by simp
  moreover from read_loop_kept [OF l] have "\<forall>p \<in> set messages. matchesFilters args p"
    by auto
  ultimately show ?thesis by (simp add: ms)
qed

theorem handleReadDirectMessages_result_witness:
  "fst (handleReadDirectMessages inboxWorld noFilter) = Content [helloMessage] \<and>
   sorted (map timestamp [helloMessage]) \<and> length [helloMessage] \<le> readLimit noFilter \<and>
   matchesFilters noFilter helloMessage"
proof -
  have r: "fst (handleReadDirectMessages inboxWorld noFilter) = Content [helloMessage]"
    by code_simp
  then have "handleReadDirectMessages inboxWorld noFilter =
      (Content [helloMessage], snd (handleReadDirectMessages inboxWorld noFilter))"
    by (metis prod.collapse)
  from handleReadDirectMessages_result [OF this] r show ?thesis by simp
qed

end
